theory Spec2Isabelle
  imports Main
begin

section \<open>Data model of bootstrap.py\<close>

text \<open>
  A \<open>pathlib.Path\<close> is the list of its components below the root, so that
  \<open>p / "x"\<close> is \<open>p @ [x]\<close> and \<open>p.parents\<close> are the proper prefixes of \<open>p\<close>,
  longest first. A character is a code point below 256.
\<close>

type_synonym path = "string list"

datatype cmd_item = Str string | PathArg path

type_synonym command = "cmd_item list"

record InstallSpec =
  name :: string
  version :: string
  extras :: string

text \<open>\<open>InstallSpec.__str__\<close>: \<open>self.version or ' (latest)'\<close> picks the second
  operand exactly when the version is the empty string.\<close>

definition InstallSpec_str :: "InstallSpec \<Rightarrow> string" where
  "InstallSpec_str m =
     name m @ extras m @ (if version m = [] then '' (latest)'' else version m)"

definition BOOTSTRAP_MODULES :: "InstallSpec list" where
  "BOOTSTRAP_MODULES =
     [\<lparr>name = ''uv'', version = ''>=0.9.18'', extras = ''''\<rparr>,
      \<lparr>name = ''tox'', version = ''>=4.32.0'', extras = ''''\<rparr>,
      \<lparr>name = ''tox-uv'', version = ''>=1.29.0'', extras = ''''\<rparr>]"

subsection \<open>Failures\<close>

text \<open>
  \<open>sys.exit(n)\<close> is \<open>SysExit n\<close>; an exception that the script raises is
  \<open>Raised\<close>. \<open>VenvError\<close> stands for whatever \<open>venv.create\<close> raises when it fails,
  \<open>SyntaxError\<close> is what the interpreter raises when it cannot compile the file.
\<close>

datatype exn =
  TypeError | ValueError | IndexError | FileNotFoundError | EOFError
  | KeyboardInterrupt | UnicodeDecodeError | FormatError | VenvError | SyntaxError

datatype failure = SysExit int | Raised exn

subsection \<open>The world outside the script\<close>

text \<open>
  A child process is either not found (\<open>FileNotFoundError\<close> from \<open>subprocess\<close>) or
  exits with a return code and leaves a file system behind. The file system is the set of
  regular files and the set of directories.
\<close>

type_synonym filesys = "path set \<times> path set"

datatype proc_result = NotFound | Exited int filesys

text \<open>
  \<open>venv.create\<close> either returns or raises; in both cases it leaves a file system behind
  (a call that raises may already have made the directory).
\<close>

datatype venv_result = Created filesys | Failed filesys

datatype event = Spawn command | VenvCreate path

datatype input_event = Line string | Interrupt

text \<open>
  What the script cannot decide is a parameter: \<open>platform\<close> is \<open>sys.platform\<close>,
  \<open>version_info\<close> the major and minor number of \<open>sys.version_info\<close>, \<open>cwd\<close> is
  \<open>Path.cwd()\<close>, \<open>spawn\<close> what running a command does, \<open>git_stdout\<close> the path that
  \<open>git rev-parse --show-toplevel\<close> printed (decoded, stripped and read by \<open>Path\<close>;
  \<open>None\<close> when the bytes are not UTF-8), and \<open>venv_create\<close> what \<open>venv.create\<close>
  leaves in the file system: besides the directory itself when it returns, all there is
  when it raises.
\<close>

record env =
  platform :: string
  version_info :: "nat \<times> nat"
  cwd :: path
  spawn :: "command \<Rightarrow> filesys \<Rightarrow> proc_result"
  git_stdout :: "path option"
  venv_create :: "path \<Rightarrow> filesys \<Rightarrow> venv_result"

text \<open>
  The state of one run: the file system, the external invocations issued so far (in order),
  the two \<open>functools.lru_cache\<close> tables, and the lines still to be typed on standard
  input (an empty list is end of file). Console output is not part of the state.
\<close>

record world =
  fsys :: filesys
  events :: "event list"
  git_root_cache :: "path option"
  pip_cache :: "(path \<times> bool) list"
  stdin :: "input_event list"

type_synonym 'a outcome = "(failure + 'a) \<times> world"

definition path_exists :: "world \<Rightarrow> path \<Rightarrow> bool" where
  "path_exists w p = (p \<in> fst (fsys w) \<or> p \<in> snd (fsys w))"

definition is_dir :: "world \<Rightarrow> path \<Rightarrow> bool" where
  "is_dir w p = (p \<in> snd (fsys w))"

definition parents :: "path \<Rightarrow> path list" where
  "parents p = map (\<lambda>n. take n p) (rev [0..<length p])"

definition log_event :: "event \<Rightarrow> world \<Rightarrow> world" where
  "log_event e w = w\<lparr>events := events w @ [e]\<rparr>"

section \<open>Helpers\<close>

definition is_windows :: "env \<Rightarrow> bool" where
  "is_windows e = (platform e = ''win32'')"

text \<open>
  The \<open>isinstance\<close> checks of the \<open>_validate_*\<close> helpers hold by typing here; what is
  left of them is the emptiness test and the test on the tail of a command, and the
  existence test of a path.
\<close>

fun is_Str :: "cmd_item \<Rightarrow> bool" where
  "is_Str (Str s) = True"
| "is_Str (PathArg p) = False"

definition validate_command :: "command \<Rightarrow> failure + unit" where
  "validate_command lst =
     (if lst = [] then Inl (Raised ValueError)
      else if \<not> list_all is_Str (tl lst) then Inl (Raised TypeError)
      else Inr ())"

definition validate_path :: "path \<Rightarrow> bool \<Rightarrow> world \<Rightarrow> failure + unit" where
  "validate_path p must_exist w =
     (if must_exist \<and> \<not> path_exists w p then Inl (Raised FileNotFoundError) else Inr ())"

subsection \<open>\<open>str.lower\<close> and \<open>str.strip\<close>\<close>

definition lower_char :: "char \<Rightarrow> char" where
  "lower_char c =
     (let n = (of_char c :: nat) in
      if (65 \<le> n \<and> n \<le> 90) \<or> (192 \<le> n \<and> n \<le> 222 \<and> n \<noteq> 215)
      then char_of (n + 32) else c)"

definition lower :: "string \<Rightarrow> string" where
  "lower s = map lower_char s"

definition is_space :: "char \<Rightarrow> bool" where
  "is_space c =
     (let n = (of_char c :: nat) in
      (9 \<le> n \<and> n \<le> 13) \<or> (28 \<le> n \<and> n \<le> 32) \<or> n = 133 \<or> n = 160)"

definition strip :: "string \<Rightarrow> string" where
  "strip s = rev (dropWhile is_space (rev (dropWhile is_space s)))"

section \<open>Command Runner\<close>

text \<open>\<open>run_command\<close>; every call site passes no keyword arguments.\<close>

definition run_command :: "env \<Rightarrow> command \<Rightarrow> bool \<Rightarrow> world \<Rightarrow> unit outcome" where
  "run_command e cmd check w =
     (case validate_command cmd of
        Inl f \<Rightarrow> (Inl f, w)
      | Inr _ \<Rightarrow>
          (let w1 = log_event (Spawn cmd) w in
           case spawn e cmd (fsys w) of
             NotFound \<Rightarrow> (Inl (SysExit 1), w1)
           | Exited rc fs' \<Rightarrow>
               if check \<and> rc \<noteq> 0 then (Inl (SysExit rc), w1\<lparr>fsys := fs'\<rparr>)
               else (Inr (), w1\<lparr>fsys := fs'\<rparr>)))"

section \<open>Repository Locator\<close>

definition git_query :: command where
  "git_query = [Str ''git'', Str ''rev-parse'', Str ''--show-toplevel'']"

text \<open>
  \<open>get_git_root\<close> under \<open>@cache\<close>: a stored result is returned at once; a result is
  stored only when the body returns.
\<close>

definition get_git_root :: "env \<Rightarrow> world \<Rightarrow> path outcome" where
  "get_git_root e w =
     (case git_root_cache w of
        Some p \<Rightarrow> (Inr p, w)
      | None \<Rightarrow>
          (let w1 = log_event (Spawn git_query) w in
           case spawn e git_query (fsys w) of
             Exited rc fs' \<Rightarrow>
               if rc \<noteq> 0 then (Inl (SysExit 1), w1\<lparr>fsys := fs'\<rparr>)
               else (case git_stdout e of
                       None \<Rightarrow> (Inl (Raised UnicodeDecodeError), w1\<lparr>fsys := fs'\<rparr>)
                     | Some p \<Rightarrow> (Inr p, w1\<lparr>fsys := fs', git_root_cache := Some p\<rparr>))
           | NotFound \<Rightarrow>
               (case find (\<lambda>parent. is_dir w (parent @ [''.git''])) (cwd e # parents (cwd e)) of
                  Some p \<Rightarrow> (Inr p, w1\<lparr>git_root_cache := Some p\<rparr>)
                | None \<Rightarrow> (Inl (SysExit 1), w1))))"

section \<open>User Interaction: the confirmation prompt\<close>

definition normalized :: "string \<Rightarrow> string" where
  "normalized choice = strip (lower choice)"

definition unanswered :: "string \<Rightarrow> bool" where
  "unanswered choice = (normalized choice \<notin> set [''y'', ''yes'', ''n'', ''no''])"

text \<open>
  The \<open>while\<close> loop of \<open>confirmation_prompt\<close>, started with \<open>choice = ''\<close>: while the
  choice is not an answer, \<open>input\<close> reads the next line, raising \<open>EOFError\<close> at end of
  file and \<open>KeyboardInterrupt\<close> on an interrupt.
\<close>

fun ask :: "string \<Rightarrow> input_event list \<Rightarrow> (exn + string) \<times> input_event list" where
  "ask choice [] = (if unanswered choice then (Inl EOFError, []) else (Inr choice, []))"
| "ask choice (ev # rest) =
     (if unanswered choice then
        (case ev of
           Interrupt \<Rightarrow> (Inl KeyboardInterrupt, rest)
         | Line s \<Rightarrow> ask s rest)
      else (Inr choice, ev # rest))"

definition confirmation_prompt :: "env \<Rightarrow> world \<Rightarrow> bool outcome" where
  "confirmation_prompt e w =
     (case get_git_root e w of
        (Inl f, w1) \<Rightarrow> (Inl f, w1)
      | (Inr git_root, w1) \<Rightarrow>
          (case ask '''' (stdin w1) of
             (Inl KeyboardInterrupt, rest) \<Rightarrow> (Inr False, w1\<lparr>stdin := rest\<rparr>)
           | (Inl x, rest) \<Rightarrow> (Inl (Raised x), w1\<lparr>stdin := rest\<rparr>)
           | (Inr choice, rest) \<Rightarrow>
               (Inr (normalized choice \<in> set ['''', ''y'', ''yes'']), w1\<lparr>stdin := rest\<rparr>)))"

section \<open>Sequencing\<close>

text \<open>A statement after a call runs only when the call returned.\<close>

definition and_then :: "'a outcome \<Rightarrow> ('a \<Rightarrow> world \<Rightarrow> 'b outcome) \<Rightarrow> 'b outcome" where
  "and_then r k = (case r of (Inl f, w) \<Rightarrow> (Inl f, w) | (Inr x, w) \<Rightarrow> k x w)"

definition lift :: "failure + 'a \<Rightarrow> world \<Rightarrow> 'a outcome" where
  "lift r w = (r, w)"

section \<open>Environment Builder\<close>

definition path_to_venv_python :: "env \<Rightarrow> path \<Rightarrow> path" where
  "path_to_venv_python e venv_dir =
     (let bin_dir = venv_dir @ [if is_windows e then ''Scripts'' else ''bin''];
          python_exe = bin_dir @ [if is_windows e then ''python.exe'' else ''python'']
      in python_exe)"

definition pip_probe :: "path \<Rightarrow> command" where
  "pip_probe python_exe = [PathArg python_exe, Str ''-m'', Str ''pip'', Str ''--version'']"

text \<open>
  \<open>pip_module_is_available\<close> under \<open>@cache\<close>, keyed by the interpreter path. Its
  \<open>subprocess.run\<close> is checked, and both failures of it mean \<open>False\<close>.
\<close>

definition pip_module_is_available :: "env \<Rightarrow> path \<Rightarrow> world \<Rightarrow> bool outcome" where
  "pip_module_is_available e python_exe w =
     (case map_of (pip_cache w) python_exe of
        Some b \<Rightarrow> (Inr b, w)
      | None \<Rightarrow>
          and_then (lift (validate_path python_exe True w) w) (\<lambda>_ w.
            let w1 = log_event (Spawn (pip_probe python_exe)) w in
            case spawn e (pip_probe python_exe) (fsys w) of
              NotFound \<Rightarrow> (Inr False, w1\<lparr>pip_cache := (python_exe, False) # pip_cache w\<rparr>)
            | Exited rc fs' \<Rightarrow>
                (Inr (rc = 0),
                 w1\<lparr>fsys := fs', pip_cache := (python_exe, rc = 0) # pip_cache w\<rparr>)))"

text \<open>\<open>venv.create(venv_dir, with_pip=True)\<close>: when it returns, the directory exists.\<close>

definition create_venv :: "env \<Rightarrow> path \<Rightarrow> world \<Rightarrow> unit outcome" where
  "create_venv e venv_dir w =
     (let w1 = log_event (VenvCreate venv_dir) w in
      case venv_create e venv_dir (fsys w) of
        Failed fs' \<Rightarrow> (Inl (Raised VenvError), w1\<lparr>fsys := fs'\<rparr>)
      | Created (fs, ds) \<Rightarrow> (Inr (), w1\<lparr>fsys := (fs, insert venv_dir ds)\<rparr>))"

definition ensurepip_command :: "path \<Rightarrow> command" where
  "ensurepip_command python_exe =
     [PathArg python_exe, Str ''-m'', Str ''ensurepip'', Str ''--upgrade'']"

definition pip_script_upgrade :: "path \<Rightarrow> command" where
  "pip_script_upgrade pip_path =
     [PathArg pip_path, Str ''install'', Str ''--upgrade'', Str ''pip'']"

definition pip_module_upgrade :: "path \<Rightarrow> command" where
  "pip_module_upgrade python_exe =
     [PathArg python_exe, Str ''-m'', Str ''pip'', Str ''install'', Str ''--upgrade'',
      Str ''pip'', Str ''--require-virtualenv'']"

definition create_virtual_environment :: "env \<Rightarrow> path \<Rightarrow> path \<Rightarrow> world \<Rightarrow> unit outcome" where
  "create_virtual_environment e venv_dir python_exe w =
     (if \<not> path_exists w venv_dir then
        and_then (create_venv e venv_dir w) (\<lambda>_ w.
        and_then (run_command e (ensurepip_command python_exe) True w) (\<lambda>_ w.
        and_then (pip_module_is_available e python_exe w) (\<lambda>available w.
          if \<not> available then
            (let pip_path = (if is_windows e then venv_dir @ [''Scripts'', ''pip.exe'']
                             else venv_dir @ [''bin'', ''pip''])
             in if \<not> path_exists w pip_path then (Inl (SysExit 1), w)
                else run_command e (pip_script_upgrade pip_path) True w)
          else run_command e (pip_module_upgrade python_exe) True w)))
      else (Inr (), w))"

section \<open>Tool Installer\<close>

text \<open>The three statements that build \<open>spec_str\<close> in \<open>_build_install_command\<close>.\<close>

definition spec_str :: "InstallSpec \<Rightarrow> string" where
  "spec_str module =
     (let s = name module;
          s = (if extras module \<noteq> [] then s @ extras module else s);
          s = (if version module \<noteq> [] then s @ version module else s)
      in s)"

definition build_install_command :: "command \<Rightarrow> InstallSpec list \<Rightarrow> failure + command" where
  "build_install_command base_command modules =
     (case validate_command base_command of
        Inl f \<Rightarrow> Inl f
      | Inr _ \<Rightarrow>
          Inr (fold (\<lambda>module command. command @ [Str (spec_str module)]) modules
                 (base_command @ [Str ''install'', Str ''-U''])))"

definition pip_base :: "path \<Rightarrow> command" where
  "pip_base python_exe = [PathArg python_exe, Str ''-m'', Str ''pip'', Str ''--require-virtualenv'']"

definition uv_base :: "path \<Rightarrow> command" where
  "uv_base python_exe = [PathArg python_exe, Str ''-m'', Str ''uv'', Str ''pip'']"

text \<open>\<open>install_with_pip\<close>; its \<open>message\<close> only chooses what is printed.\<close>

definition install_with_pip :: "env \<Rightarrow> path \<Rightarrow> InstallSpec list \<Rightarrow> world \<Rightarrow> unit outcome" where
  "install_with_pip e python_exe modules w =
     and_then (lift (validate_path python_exe True w) w) (\<lambda>_ w.
     and_then (lift (build_install_command (pip_base python_exe) modules) w) (\<lambda>command w.
       run_command e command True w))"

definition install_with_uv :: "env \<Rightarrow> path \<Rightarrow> InstallSpec list \<Rightarrow> world \<Rightarrow> unit outcome" where
  "install_with_uv e python_exe modules w =
     and_then (lift (validate_path python_exe True w) w) (\<lambda>_ w.
       case filter (\<lambda>m. name m = ''uv'') modules of
         [] \<Rightarrow> (Inl (Raised IndexError), w)
       | uv_module # _ \<Rightarrow>
           (let other_modules = filter (\<lambda>m. name m \<noteq> ''uv'') modules in
            and_then (install_with_pip e python_exe [uv_module] w) (\<lambda>_ w.
              if other_modules = [] then (Inr (), w)
              else
                and_then (lift (build_install_command (uv_base python_exe) other_modules) w)
                  (\<lambda>command w. run_command e command True w))))"

definition install_tools :: "env \<Rightarrow> path \<Rightarrow> InstallSpec list \<Rightarrow> world \<Rightarrow> unit outcome" where
  "install_tools e python_exe modules w =
     and_then (lift (validate_path python_exe True w) w) (\<lambda>_ w.
       if modules = [] then (Inr (), w)
       else
         (let using_uv = list_ex (\<lambda>m. name m = ''uv'') modules in
          if using_uv then install_with_uv e python_exe modules w
          else install_with_pip e python_exe modules w))"

section \<open>User Interaction: the instructions\<close>

definition TOOL_USAGE_INSTRUCTIONS :: string where
  "TOOL_USAGE_INSTRUCTIONS = concat
     [''\<newline>'',
      ''You use 'tox' to run tasks that set up and manage the development environment,\<newline>'',
      ''run tests, linters, and build documentation:\<newline>'',
      ''\<newline>'',
      ''Examples:\<newline>'',
      ''\<newline>'',
      ''  tox run -e lint     # Run linters on the codebase\<newline>'',
      ''  tox run -e docs     # Build documentation\<newline>'',
      ''  tox run -e py310    # Run the test suite using Python 3.10\<newline>'',
      ''  tox run -e py314    # Run the test suite using Python 3.14\<newline>'',
      ''  tox devenv -e dev   # Start an interactive dev environment with Python 3.12\<newline>'',
      ''\<newline>'',
      ''The list of available 'tox' environments can be found by running:\<newline>'',
      ''\<newline>'',
      ''  tox list\<newline>'',
      ''\<newline>'',
      ''If you are not familiar with using 'tox' see https://tox.wiki/en/latest/\<newline>'',
      ''\<newline>'',
      ''You use 'uv' to manage Python packages within the virtual environment and to\<newline>'',
      ''update pyproject dependencies:\<newline>'',
      ''\<newline>'',
      ''Examples:\<newline>'',
      ''\<newline>'',
      ''  # Add a new package to the 'dev' dependency group\<newline>'',
      ''  uv add --dev --group=dev 'package_name>=1.2.3'\<newline>'',
      ''\<newline>'',
      ''  # Add a new package to the default dependency group\<newline>'',
      ''  uv add 'package_name>=1.2.3'\<newline>'',
      ''\<newline>'',
      ''  # Add a package to specified extras\<newline>'',
      ''  uv add 'package_name[extra1,extra2]'\<newline>'',
      ''\<newline>'',
      ''  # install a package from PyPI to the virtual environment\<newline>'',
      ''  uv pip install 'package_name>=1.2.3'\<newline>'',
      ''\<newline>'',
      ''See https://docs.astral.sh/uv/ for more information on using 'uv'.\<newline>'']"

text \<open>
  \<open>POST_INSTALL_MESSAGE\<close> is an f-string: \<open>{{activate}}\<close> in it is the text
  \<open>{activate}\<close>, and \<open>{TOOL_USAGE_INSTRUCTIONS}\<close> is replaced when the module loads.
  The text before and after \<open>{activate}\<close> is named.
\<close>

definition before_activate :: string where
  "before_activate = concat
     [''\<newline>'',
      ''--- Bootstrap complete! ---\<newline>'',
      ''\<newline>'',
      ''To activate the development environment, run:\<newline>'',
      ''\<newline>'',
      ''  '']"

definition after_activate :: string where
  "after_activate = concat
     [''\<newline>'',
      ''\<newline>'',
      ''To deactivate the virtual environment, run:\<newline>'',
      ''\<newline>'',
      ''  deactivate\<newline>'',
      ''\<newline>'']
     @ TOOL_USAGE_INSTRUCTIONS
     @ ''\<newline>''"

definition POST_INSTALL_MESSAGE :: string where
  "POST_INSTALL_MESSAGE = before_activate @ ''{activate}'' @ after_activate"

text \<open>
  \<open>str.format\<close> with the single keyword \<open>activate\<close>, for templates whose
  replacement fields carry no conversion and no format specification: doubled braces are
  literal braces, \<open>{activate}\<close> is replaced, and any other brace makes \<open>format\<close> raise.
\<close>

fun format_activate :: "string \<Rightarrow> string \<Rightarrow> exn + string" where
  "format_activate [] v = Inr []"
| "format_activate (c # cs) v =
     (if c = CHR ''{'' then
        (if take 1 cs = ''{'' then
           map_sum id (Cons CHR ''{'') (format_activate (drop 1 cs) v)
         else if take 9 cs = ''activate}'' then
           map_sum id (append v) (format_activate (drop 9 cs) v)
         else Inl FormatError)
      else if c = CHR ''}'' then
        (if take 1 cs = ''}'' then
           map_sum id (Cons CHR ''}'') (format_activate (drop 1 cs) v)
         else Inl FormatError)
      else map_sum id (Cons c) (format_activate cs v))"

definition activate_script :: "env \<Rightarrow> string" where
  "activate_script e =
     (let activate_script = ''source .venv/bin/activate'';
          activate_script =
            (if is_windows e
             then ''.venv'' @ [CHR 0x5C] @ ''Scripts'' @ [CHR 0x5C] @ ''activate.bat''
             else activate_script)
      in activate_script)"

text \<open>\<open>print_instructions\<close> returns the text that it prints.\<close>

definition print_instructions :: "env \<Rightarrow> string \<Rightarrow> exn + string" where
  "print_instructions e template = format_activate template (activate_script e)"

section \<open>The script\<close>

definition main :: "env \<Rightarrow> world \<Rightarrow> int outcome" where
  "main e w =
     and_then (confirmation_prompt e w) (\<lambda>proceed w.
       if \<not> proceed then (Inl (SysExit 0), w)
       else
         and_then (get_git_root e w) (\<lambda>git_root w.
           let venv_dir = git_root @ [''.venv''];
               python_exe = path_to_venv_python e venv_dir
           in
             and_then (create_virtual_environment e venv_dir python_exe w) (\<lambda>_ w.
             and_then (install_tools e python_exe BOOTSTRAP_MODULES w) (\<lambda>_ w.
               case print_instructions e POST_INSTALL_MESSAGE of
                 Inl x \<Rightarrow> (Inl (Raised x), w)
               | Inr instructions \<Rightarrow> (Inr 0, w)))))"

text \<open>\<open>sys.version_info < (3, 8)\<close> compares tuples lexicographically.\<close>

definition below_minimum :: "env \<Rightarrow> bool" where
  "below_minimum e =
     (case version_info e of (major, minor) \<Rightarrow> major < 3 \<or> (major = 3 \<and> minor < 8))"

text \<open>
  The interpreter compiles the whole file before it runs any of it. The file has formatted
  string literals (the first in the version check itself, line 28) and annotated
  assignments (lines 38 and 49 to 51), which are syntax of Python 3.6: an older interpreter
  stops with a \<open>SyntaxError\<close> and runs nothing. Nothing in the file is newer syntax.
\<close>

definition compiles :: "env \<Rightarrow> bool" where
  "compiles e =
     (case version_info e of (major, minor) \<Rightarrow> 3 < major \<or> (major = 3 \<and> 6 \<le> minor))"

text \<open>
  The module run as a program: once compiled, the version check comes first, then
  \<open>main()\<close>, whose return value is dropped.
\<close>

definition script :: "env \<Rightarrow> world \<Rightarrow> unit outcome" where
  "script e w =
     (if \<not> compiles e then (Inl (Raised SyntaxError), w)
      else if below_minimum e then (Inl (SysExit 2), w)
      else and_then (main e w) (\<lambda>_ w. (Inr (), w)))"

text \<open>
  The exit status that the parent of the interpreter sees. \<open>sys.exit(n)\<close> hands \<open>n\<close>
  to the C function \<open>exit\<close> as an \<open>int\<close>, of which the parent sees the low 8 bits on
  POSIX (\<open>sys.exit(-9)\<close> is status 247, \<open>sys.exit(256)\<close> is status 0) and all 32 bits
  on Windows. What becomes of an \<open>n\<close> outside a 32-bit \<open>int\<close> depends on the platform
  and on the version of CPython and is left open (\<open>None\<close>). So is the end by an uncaught
  \<open>KeyboardInterrupt\<close>, after which the interpreter dies by the signal. Any other
  uncaught exception gives 1, and the end of the module gives 0.
\<close>

definition exit_code :: "env \<Rightarrow> int \<Rightarrow> int option" where
  "exit_code e n =
     (if - (2 ^ 31) \<le> n \<and> n < 2 ^ 31
      then Some (if is_windows e then n mod 2 ^ 32 else n mod 256)
      else None)"

fun exit_status :: "env \<Rightarrow> failure + 'a \<Rightarrow> int option" where
  "exit_status e (Inl (SysExit n)) = exit_code e n"
| "exit_status e (Inl (Raised x)) = (if x = KeyboardInterrupt then None else Some 1)"
| "exit_status e (Inr v) = Some 0"

section \<open>Commands that the installer issues\<close>

text \<open>
  Names for the lists that \<open>install_with_pip\<close> and \<open>install_with_uv\<close> hand to
  \<open>run_command\<close>: the base command, \<open>install -U\<close>, one argument for each spec.
\<close>

abbreviation pip_install :: "path \<Rightarrow> InstallSpec list \<Rightarrow> command" where
  "pip_install python_exe modules \<equiv>
     pip_base python_exe @ [Str ''install'', Str ''-U''] @ map (\<lambda>m. Str (spec_str m)) modules"

abbreviation uv_install :: "path \<Rightarrow> InstallSpec list \<Rightarrow> command" where
  "uv_install python_exe modules \<equiv>
     uv_base python_exe @ [Str ''install'', Str ''-U''] @ map (\<lambda>m. Str (spec_str m)) modules"

text \<open>A command succeeds in a world when it is found there and exits with code 0.\<close>

definition succeeds :: "env \<Rightarrow> command \<Rightarrow> world \<Rightarrow> bool" where
  "succeeds e cmd w = (case spawn e cmd (fsys w) of NotFound \<Rightarrow> False | Exited rc fs' \<Rightarrow> rc = 0)"

section \<open>What a step leaves unchanged\<close>

text \<open>
  \<open>frame R f\<close>: the world after the step \<open>f\<close> is related by \<open>R\<close> to the world
  before it, however the step ends.
\<close>

definition frame :: "(world \<Rightarrow> world \<Rightarrow> bool) \<Rightarrow> (world \<Rightarrow> 'a outcome) \<Rightarrow> bool" where
  "frame R f = (\<forall>w. R w (snd (f w)))"

text \<open>The number of times the version-control query was issued.\<close>

definition git_queries :: "world \<Rightarrow> nat" where
  "git_queries w = count_list (events w) (Spawn git_query)"

definition same_git :: "world \<Rightarrow> world \<Rightarrow> bool" where
  "same_git w w' =
     (git_root_cache w' = git_root_cache w \<and> git_queries w' = git_queries w)"

text \<open>The number of times \<open>venv.create\<close> was called for a directory.\<close>

definition creations :: "path \<Rightarrow> world \<Rightarrow> nat" where
  "creations venv_dir w = count_list (events w) (VenvCreate venv_dir)"

definition still_there :: "path \<Rightarrow> world \<Rightarrow> world \<Rightarrow> bool" where
  "still_there venv_dir w w' =
     ((path_exists w venv_dir \<longrightarrow> path_exists w' venv_dir)
      \<and> creations venv_dir w' = creations venv_dir w)"

text \<open>No command removes the path \<open>p\<close>.\<close>

definition keeps :: "env \<Rightarrow> path \<Rightarrow> bool" where
  "keeps e p =
     (\<forall>cmd fs rc fs'. spawn e cmd fs = Exited rc fs' \<longrightarrow>
        p \<in> fst fs \<union> snd fs \<longrightarrow> p \<in> fst fs' \<union> snd fs')"

section \<open>An example run\<close>

text \<open>
  A POSIX machine with Python 3.12 where every command succeeds and leaves the file system
  as it was, inside the checkout \<open>/home/dev/proj\<close>, and where \<open>venv.create\<close> puts
  \<open>bin/python\<close> under the new directory. The user types \<open>y\<close>.
\<close>

definition example_env :: env where
  "example_env =
     \<lparr>platform = ''linux'', version_info = (3, 12), cwd = [''home'', ''dev'', ''proj''],
      spawn = (\<lambda>cmd fs. Exited 0 fs),
      git_stdout = Some [''home'', ''dev'', ''proj''],
      venv_create =
        (\<lambda>d fs. Created (insert (d @ [''bin'', ''python'']) (fst fs),
                          insert (d @ [''bin'']) (snd fs)))\<rparr>"

definition example_world :: world where
  "example_world =
     \<lparr>fsys = ({}, {[''home'', ''dev'', ''proj'']}), events = [], git_root_cache = None,
      pip_cache = [], stdin = [Line ''y'']\<rparr>"

text \<open>The same machine once the environment is there.\<close>

definition example_python :: path where
  "example_python = [''home'', ''dev'', ''proj'', ''.venv'', ''bin'', ''python'']"

definition example_venv_world :: world where
  "example_venv_world =
     example_world
       \<lparr>fsys := ({example_python},
                 {[''home'', ''dev'', ''proj''], [''home'', ''dev'', ''proj'', ''.venv''],
                  [''home'', ''dev'', ''proj'', ''.venv'', ''bin'']})\<rparr>"

text \<open>The example machine after the environment has been built in \<open>.venv\<close>.\<close>

definition example_venv_dir :: path where
  "example_venv_dir = [''home'', ''dev'', ''proj'', ''.venv'']"

definition example_built_world :: world where
  "example_built_world =
     example_world
       \<lparr>fsys := ({example_python},
                 {[''home'', ''dev'', ''proj''], [''home'', ''dev'', ''proj'', ''.venv''],
                  [''home'', ''dev'', ''proj'', ''.venv'', ''bin'']}),
        events := [VenvCreate example_venv_dir,
                   Spawn (ensurepip_command example_python),
                   Spawn (pip_probe example_python),
                   Spawn (pip_module_upgrade example_python)],
        pip_cache := [(example_python, True)]\<rparr>"

text \<open>
  Machines on which something goes wrong: Python 3.7 and Python 3.5; \<open>pip\<close> exiting
  with code 7 when asked for \<open>uv\<close>; no interpreter to run \<open>ensurepip\<close> with; \<open>git\<close>
  exiting with code 128; no \<open>git\<close> at all, outside any checkout; and an environment
  without a working \<open>pip\<close>.
\<close>

definition python37_env :: env where
  "python37_env = example_env\<lparr>version_info := (3, 7)\<rparr>"

definition python35_env :: env where
  "python35_env = example_env\<lparr>version_info := (3, 5)\<rparr>"

definition pip_failing_env :: env where
  "pip_failing_env =
     example_env
       \<lparr>spawn := (\<lambda>cmd fs. if Str ''uv>=0.9.18'' \<in> set cmd then Exited 7 fs else Exited 0 fs)\<rparr>"

definition missing_python_env :: env where
  "missing_python_env =
     example_env
       \<lparr>spawn := (\<lambda>cmd fs. if Str ''ensurepip'' \<in> set cmd then NotFound else Exited 0 fs)\<rparr>"

definition not_a_repo_env :: env where
  "not_a_repo_env =
     example_env
       \<lparr>spawn := (\<lambda>cmd fs. if cmd = git_query then Exited 128 fs else Exited 0 fs)\<rparr>"

definition no_git_env :: env where
  "no_git_env =
     example_env
       \<lparr>spawn := (\<lambda>cmd fs. if cmd = git_query then NotFound else Exited 0 fs)\<rparr>"

definition outside_world :: world where
  "outside_world = example_world\<lparr>fsys := ({}, {})\<rparr>"

definition broken_pip_env :: env where
  "broken_pip_env =
     example_env
       \<lparr>spawn := (\<lambda>cmd fs. if Str ''--version'' \<in> set cmd then Exited 1 fs else Exited 0 fs)\<rparr>"

section \<open>The confirmation prompt\<close>

lemma unanswered_empty: "unanswered []"
  by code_simp

lemma answers_normalized:
  "normalized ''y'' = ''y''" "normalized ''Y'' = ''y''" "normalized ''yes'' = ''yes''"
  "normalized ''n'' = ''n''" "normalized ''no'' = ''no''" "normalized ''NO'' = ''no''"
  "normalized [] = []"
  by code_simp+

lemma get_git_root_stdin_update:
  "get_git_root e (w\<lparr>stdin := i\<rparr>) =
     (case get_git_root e w of (r, w') \<Rightarrow> (r, w'\<lparr>stdin := i\<rparr>))"
  by (simp add: get_git_root_def log_event_def is_dir_def Let_def
           split: option.splits proc_result.splits)

lemma get_git_root_stdin: "stdin (snd (get_git_root e w)) = stdin w"
  by (simp add: get_git_root_def log_event_def Let_def
           split: option.splits proc_result.splits)

text \<open>A line that is an answer ends the loop; the answer decides.\<close>

lemma ask_answer: "\<not> unanswered s \<Longrightarrow> ask [] (Line s # rest) = (Inr s, rest)"
  by (cases rest) (simp_all add: unanswered_empty)

lemma prompt_answer:
  assumes "get_git_root e w = (Inr root, w1)" and "stdin w = Line s # rest"
    and "\<not> unanswered s"
  shows "confirmation_prompt e w =
           (Inr (normalized s \<in> set ['''', ''y'', ''yes'']), w1\<lparr>stdin := rest\<rparr>)"
proof -
  have "stdin w1 = Line s # rest"
    using get_git_root_stdin [of e w] assms(1,2) by simp
  then have "ask [] (stdin w1) = (Inr s, rest)"
    using assms(3) by (simp add: ask_answer del: ask.simps)
  then show ?thesis
    using assms(1) by (simp add: confirmation_prompt_def)
qed

lemma prompt_yes:
  assumes "get_git_root e w = (Inr root, w1)" and "stdin w = Line s # rest"
    and "s \<in> set [''y'', ''Y'', ''yes'']"
  shows "fst (confirmation_prompt e w) = Inr True"
proof -
  have "\<not> unanswered s" and "normalized s \<in> set ['''', ''y'', ''yes'']"
    using assms(3) by (auto simp: unanswered_def answers_normalized)
  then show ?thesis
    using prompt_answer [OF assms(1,2)] by simp
qed

lemma prompt_no:
  assumes "get_git_root e w = (Inr root, w1)" and "stdin w = Line s # rest"
    and "s \<in> set [''n'', ''no'', ''NO'']"
  shows "fst (confirmation_prompt e w) = Inr False"
proof -
  have "\<not> unanswered s" and "normalized s \<notin> set ['''', ''y'', ''yes'']"
    using assms(3) by (auto simp: unanswered_def answers_normalized)
  then show ?thesis
    using prompt_answer [OF assms(1,2)] by simp
qed

text \<open>
  An empty line is no answer: the loop condition tests membership in
  \<open>('y', 'yes', 'n', 'no')\<close>, so the prompt is shown again and the outcome is that of the
  lines that follow. The \<open>''\<close> in the tuple of the \<^verbatim>\<open>return\<close> statement is never
  reached.
\<close>

lemma prompt_skips_empty_line:
  "fst (confirmation_prompt e (w\<lparr>stdin := Line [] # rest\<rparr>)) =
   fst (confirmation_prompt e (w\<lparr>stdin := rest\<rparr>))"
  by (simp add: confirmation_prompt_def get_git_root_stdin_update unanswered_empty
           split: prod.splits sum.splits exn.splits)

lemma prompt_never_returns_empty:
  "ask choice inp = (Inr s, rest) \<Longrightarrow> \<not> unanswered s"
  by (induction choice inp rule: ask.induct) (auto split: if_splits input_event.splits)

text \<open>
  Claim C1. The answers \<open>y\<close>, \<open>Y\<close>, \<open>yes\<close> give \<open>True\<close> and \<open>n\<close>, \<open>no\<close>, \<open>NO\<close> give
  \<open>False\<close> (\<open>prompt_yes\<close>, \<open>prompt_no\<close>), but an empty answer is not taken as yes: in the
  example run, an empty line followed by \<open>n\<close> makes the prompt return \<open>False\<close>.
\<close>

theorem empty_answer_is_asked_again:
  "fst (confirmation_prompt example_env
          (example_world\<lparr>stdin := [Line '''', Line ''n'']\<rparr>)) = Inr False"
  by (simp add: confirmation_prompt_def get_git_root_def example_env_def example_world_def
        log_event_def unanswered_def answers_normalized)

section \<open>The installer command\<close>

lemma spec_str_concat: "spec_str m = name m @ extras m @ version m"
  by (simp add: spec_str_def Let_def)

lemma append_each_spec:
  "fold (\<lambda>module command. command @ [Str (spec_str module)]) modules command =
     command @ map (\<lambda>m. Str (spec_str m)) modules"
  by (induction modules arbitrary: command) simp_all

lemma build_install_command_eq:
  "build_install_command base_command modules =
     (case validate_command base_command of
        Inl f \<Rightarrow> Inl f
      | Inr _ \<Rightarrow>
          Inr (base_command @ [Str ''install'', Str ''-U'']
                 @ map (\<lambda>m. Str (spec_str m)) modules))"
  by (simp add: build_install_command_def append_each_spec split: sum.splits)

lemma validate_pip_base [simp]: "validate_command (pip_base python_exe) = Inr ()"
  by (simp add: validate_command_def pip_base_def)

lemma validate_uv_base [simp]: "validate_command (uv_base python_exe) = Inr ()"
  by (simp add: validate_command_def uv_base_def)

lemma build_pip [simp]:
  "build_install_command (pip_base python_exe) modules = Inr (pip_install python_exe modules)"
  by (simp add: build_install_command_eq)

lemma build_uv [simp]:
  "build_install_command (uv_base python_exe) modules = Inr (uv_install python_exe modules)"
  by (simp add: build_install_command_eq)

text \<open>
  Claim C2. The argument that \<open>_build_install_command\<close> appends for a spec is its name,
  then its extras, then its version constraint, whatever is empty adding nothing; the
  command is the base command, \<open>install -U\<close>, and these arguments in order. The display
  form \<open>__str__\<close> is that argument followed by \<open>" (latest)"\<close> exactly when the version
  is empty, so the substitution is made for display only.
\<close>

theorem installer_argument_is_concatenation:
  "spec_str m = name m @ extras m @ version m
   \<and> InstallSpec_str m = (if version m = [] then spec_str m @ '' (latest)'' else spec_str m)
   \<and> build_install_command base_command modules =
       (case validate_command base_command of
          Inl f \<Rightarrow> Inl f
        | Inr _ \<Rightarrow>
            Inr (base_command @ [Str ''install'', Str ''-U'']
                   @ map (\<lambda>m. Str (name m @ extras m @ version m)) modules))"
  by (simp add: build_install_command_eq spec_str_concat InstallSpec_str_def split: sum.splits)

theorem installer_argument_is_concatenation_witness:
  "spec_str \<lparr>name = ''tox'', version = '''', extras = ''[dev]''\<rparr> = ''tox[dev]''
   \<and> InstallSpec_str \<lparr>name = ''tox'', version = '''', extras = ''[dev]''\<rparr>
       = ''tox[dev] (latest)''
   \<and> build_install_command [Str ''pip''] BOOTSTRAP_MODULES =
       Inr [Str ''pip'', Str ''install'', Str ''-U'',
            Str ''uv>=0.9.18'', Str ''tox>=4.32.0'', Str ''tox-uv>=1.29.0'']"
  using installer_argument_is_concatenation
          [of "\<lparr>name = ''tox'', version = '''', extras = ''[dev]''\<rparr>"
              "[Str ''pip'']" BOOTSTRAP_MODULES]
  by (simp add: validate_command_def BOOTSTRAP_MODULES_def)

section \<open>The Tool Installer\<close>

lemma specs_are_strings [simp]: "list_all is_Str (map (\<lambda>m. Str (f m)) modules)"
  by (simp add: list_all_iff)

lemma validate_install [simp]:
  "list_all is_Str args \<Longrightarrow> validate_command (pip_base python_exe @ args) = Inr ()"
  "list_all is_Str args \<Longrightarrow> validate_command (uv_base python_exe @ args) = Inr ()"
  by (simp_all add: validate_command_def pip_base_def uv_base_def)

lemma run_command_valid:
  "validate_command cmd = Inr () \<Longrightarrow>
     run_command e cmd check w =
       (case spawn e cmd (fsys w) of
          NotFound \<Rightarrow> (Inl (SysExit 1), log_event (Spawn cmd) w)
        | Exited rc fs' \<Rightarrow>
            (if check \<and> rc \<noteq> 0 then Inl (SysExit rc) else Inr (),
             (log_event (Spawn cmd) w)\<lparr>fsys := fs'\<rparr>))"
  by (auto simp: run_command_def Let_def split: proc_result.splits)

lemma run_command_events:
  "validate_command cmd = Inr () \<Longrightarrow>
     events (snd (run_command e cmd check w)) = events w @ [Spawn cmd]"
  by (simp add: run_command_valid log_event_def split: proc_result.splits)

lemma run_command_returns:
  "validate_command cmd = Inr () \<Longrightarrow>
     (\<exists>w'. run_command e cmd True w = (Inr (), w')) = succeeds e cmd w"
  by (auto simp: run_command_valid succeeds_def split: proc_result.splits)

lemma install_with_pip_eq:
  "path_exists w python_exe \<Longrightarrow>
     install_with_pip e python_exe modules w =
       run_command e (pip_install python_exe modules) True w"
  by (simp add: install_with_pip_def and_then_def lift_def validate_path_def)

lemma install_with_pip_events:
  "path_exists w python_exe \<Longrightarrow>
     events (snd (install_with_pip e python_exe modules w)) =
       events w @ [Spawn (pip_install python_exe modules)]"
  by (simp add: install_with_pip_eq run_command_events)

text \<open>
  \<open>install_with_uv\<close> when the interpreter is there and some spec is named \<open>uv\<close>: the
  pip call for the first such spec, then, when that returned and other specs are left,
  the uv call for them.
\<close>

lemma install_with_uv_eq:
  assumes "path_exists w python_exe"
    and "filter (\<lambda>m. name m = ''uv'') modules = uv_module # more_uv"
  shows "install_with_uv e python_exe modules w =
           and_then (run_command e (pip_install python_exe [uv_module]) True w) (\<lambda>_ w.
             if filter (\<lambda>m. name m \<noteq> ''uv'') modules = [] then (Inr (), w)
             else run_command e
                    (uv_install python_exe (filter (\<lambda>m. name m \<noteq> ''uv'') modules)) True w)"
  using assms
  by (simp add: install_with_uv_def install_with_pip_eq and_then_def lift_def
        validate_path_def Let_def split: prod.splits sum.splits)

lemma install_with_uv_events:
  assumes "path_exists w python_exe"
    and "filter (\<lambda>m. name m = ''uv'') modules = uv_module # more_uv"
  shows "events (snd (install_with_uv e python_exe modules w)) =
           events w @ Spawn (pip_install python_exe [uv_module]) #
             (if succeeds e (pip_install python_exe [uv_module]) w
                 \<and> filter (\<lambda>m. name m \<noteq> ''uv'') modules \<noteq> []
              then [Spawn (uv_install python_exe (filter (\<lambda>m. name m \<noteq> ''uv'') modules))]
              else [])"
proof -
  let ?boot = "pip_install python_exe [uv_module]"
  let ?others = "filter (\<lambda>m. name m \<noteq> ''uv'') modules"
  obtain r w1 where first: "run_command e ?boot True w = (r, w1)"
    by (cases "run_command e ?boot True w")
  have valid: "validate_command ?boot = Inr ()"
    by simp
  have ev1: "events w1 = events w @ [Spawn ?boot]"
    using run_command_events [OF valid, of e True w] first by simp
  show ?thesis
  proof (cases r)
    case (Inl f)
    then have "\<not> succeeds e ?boot w"
      using run_command_returns [OF valid, of e w] first by simp
    then show ?thesis
      using install_with_uv_eq [OF assms] first Inl ev1 by (simp add: and_then_def)
  next
    case (Inr u)
    then have ok: "succeeds e ?boot w"
      using run_command_returns [OF valid, of e w] first by simp
    show ?thesis
    proof (cases "?others = []")
      case True
      then show ?thesis
        using install_with_uv_eq [OF assms] first Inr ev1 by (simp add: and_then_def)
    next
      case False
      have "events (snd (run_command e (uv_install python_exe ?others) True w1)) =
              events w1 @ [Spawn (uv_install python_exe ?others)]"
        by (rule run_command_events) simp
      then show ?thesis
        using install_with_uv_eq [OF assms] first Inr ev1 ok False
        by (simp add: and_then_def)
    qed
  qed
qed

lemma install_tools_eq:
  "path_exists w python_exe \<Longrightarrow>
     install_tools e python_exe modules w =
       (if modules = [] then (Inr (), w)
        else if list_ex (\<lambda>m. name m = ''uv'') modules
             then install_with_uv e python_exe modules w
             else install_with_pip e python_exe modules w)"
  by (simp add: install_tools_def and_then_def lift_def validate_path_def)

lemma first_uv:
  "list_ex (\<lambda>m. name m = ''uv'') modules \<Longrightarrow>
     \<exists>more_uv. filter (\<lambda>m. name m = ''uv'') modules =
                 hd (filter (\<lambda>m. name m = ''uv'') modules) # more_uv"
  by (cases "filter (\<lambda>m. name m = ''uv'') modules")
     (auto simp: list_ex_iff filter_empty_conv)

text \<open>
  Claim C3. For a non-empty spec list and an interpreter that is there: when a spec is
  named \<open>uv\<close> and the pip call that bootstraps it succeeds, the invocations issued are
  that one pip call, for the first spec named \<open>uv\<close> alone, and then one uv call for all
  the specs not named \<open>uv\<close>, or no second call when there are none; when no spec is named
  \<open>uv\<close>, the one invocation issued is the pip call for all the specs.
\<close>

theorem install_tools_invocations:
  assumes "modules \<noteq> []" and "path_exists w python_exe"
    and "list_ex (\<lambda>m. name m = ''uv'') modules \<longrightarrow>
           succeeds e (pip_install python_exe [hd (filter (\<lambda>m. name m = ''uv'') modules)]) w"
  shows "events (snd (install_tools e python_exe modules w)) =
           events w @
           (if list_ex (\<lambda>m. name m = ''uv'') modules then
              Spawn (pip_install python_exe [hd (filter (\<lambda>m. name m = ''uv'') modules)]) #
              (if filter (\<lambda>m. name m \<noteq> ''uv'') modules = [] then []
               else [Spawn (uv_install python_exe
                              (filter (\<lambda>m. name m \<noteq> ''uv'') modules))])
            else [Spawn (pip_install python_exe modules)])"
proof (cases "list_ex (\<lambda>m. name m = ''uv'') modules")
  case True
  then obtain more_uv where
    uv: "filter (\<lambda>m. name m = ''uv'') modules =
           hd (filter (\<lambda>m. name m = ''uv'') modules) # more_uv"
    using first_uv by blast
  show ?thesis
    using True assms install_with_uv_events [OF assms(2) uv, of e]
    by (simp add: install_tools_eq)
next
  case False
  then show ?thesis
    using assms(1,2) by (simp add: install_tools_eq install_with_pip_events)
qed

theorem install_tools_invocations_witness:
  "events (snd (install_tools example_env example_python BOOTSTRAP_MODULES example_venv_world)) =
     [Spawn [PathArg example_python, Str ''-m'', Str ''pip'', Str ''--require-virtualenv'',
             Str ''install'', Str ''-U'', Str ''uv>=0.9.18''],
      Spawn [PathArg example_python, Str ''-m'', Str ''uv'', Str ''pip'',
             Str ''install'', Str ''-U'', Str ''tox>=4.32.0'', Str ''tox-uv>=1.29.0'']]
   \<and> events (snd (install_tools example_env example_python
                     [\<lparr>name = ''tox'', version = '''', extras = ''''\<rparr>] example_venv_world)) =
     [Spawn [PathArg example_python, Str ''-m'', Str ''pip'', Str ''--require-virtualenv'',
             Str ''install'', Str ''-U'', Str ''tox'']]"
  using install_tools_invocations
          [of BOOTSTRAP_MODULES example_venv_world example_python example_env]
        install_tools_invocations
          [of "[\<lparr>name = ''tox'', version = '''', extras = ''''\<rparr>]" example_venv_world
              example_python example_env]
  by (simp add: BOOTSTRAP_MODULES_def example_venv_world_def example_world_def example_env_def
        path_exists_def succeeds_def pip_base_def uv_base_def spec_str_concat)

text \<open>
  Claim C4. With an empty spec list \<open>install_tools\<close> leaves the world as it was, so no
  process is started, and it returns whenever the interpreter path it is given exists
  (the check of that path comes before the test for the empty list).
\<close>

theorem install_tools_empty_is_noop:
  "snd (install_tools e python_exe [] w) = w
   \<and> (path_exists w python_exe \<longrightarrow> install_tools e python_exe [] w = (Inr (), w))"
  by (simp add: install_tools_def and_then_def lift_def validate_path_def)

theorem install_tools_empty_is_noop_witness:
  "path_exists example_venv_world example_python
   \<and> install_tools example_env example_python [] example_venv_world = (Inr (), example_venv_world)
   \<and> events (snd (install_tools example_env example_python [] example_venv_world)) = []"
  using install_tools_empty_is_noop [of example_env example_python example_venv_world]
  by (simp add: example_venv_world_def example_world_def path_exists_def)

text \<open>
  Claim C10. When several specs are named \<open>uv\<close>, the pip call carries the first of them
  only and the uv call carries the specs not named \<open>uv\<close>; these two are the only
  invocations \<open>install_tools\<close> can issue, so no other spec named \<open>uv\<close> is handed to an
  installer.
\<close>

theorem later_uv_specs_are_dropped:
  assumes "path_exists w python_exe"
    and "filter (\<lambda>m. name m = ''uv'') modules = uv_module # more_uv"
  shows "(events (snd (install_tools e python_exe modules w)) =
            events w @ [Spawn (pip_install python_exe [uv_module])]
          \<or> events (snd (install_tools e python_exe modules w)) =
            events w @ [Spawn (pip_install python_exe [uv_module]),
                        Spawn (uv_install python_exe (filter (\<lambda>m. name m \<noteq> ''uv'') modules))])
         \<and> set more_uv \<inter> set (filter (\<lambda>m. name m \<noteq> ''uv'') modules) = {}"
proof -
  have "filter (\<lambda>m. name m = ''uv'') modules \<noteq> []"
    using assms(2) by simp
  then have "modules \<noteq> []" and "list_ex (\<lambda>m. name m = ''uv'') modules"
    by (auto simp: list_ex_iff filter_empty_conv)
  then have "install_tools e python_exe modules w = install_with_uv e python_exe modules w"
    using assms(1) by (simp add: install_tools_eq)
  moreover have "set more_uv \<subseteq> {m. name m = ''uv''}"
  proof -
    have "set more_uv \<subseteq> set (filter (\<lambda>m. name m = ''uv'') modules)"
      using assms(2) by auto
    then show ?thesis by auto
  qed
  ultimately show ?thesis
    using install_with_uv_events [OF assms, of e] by auto
qed

theorem later_uv_specs_are_dropped_witness:
  "events (snd (install_tools example_env example_python
                  [\<lparr>name = ''uv'', version = ''>=0.9.18'', extras = ''''\<rparr>,
                   \<lparr>name = ''tox'', version = '''', extras = ''''\<rparr>,
                   \<lparr>name = ''uv'', version = ''<0.5'', extras = ''''\<rparr>]
                  example_venv_world)) =
     [Spawn [PathArg example_python, Str ''-m'', Str ''pip'', Str ''--require-virtualenv'',
             Str ''install'', Str ''-U'', Str ''uv>=0.9.18''],
      Spawn [PathArg example_python, Str ''-m'', Str ''uv'', Str ''pip'',
             Str ''install'', Str ''-U'', Str ''tox'']]"
  using later_uv_specs_are_dropped
          [of example_venv_world example_python
              "[\<lparr>name = ''uv'', version = ''>=0.9.18'', extras = ''''\<rparr>,
                \<lparr>name = ''tox'', version = '''', extras = ''''\<rparr>,
                \<lparr>name = ''uv'', version = ''<0.5'', extras = ''''\<rparr>]"
              "\<lparr>name = ''uv'', version = ''>=0.9.18'', extras = ''''\<rparr>"
              "[\<lparr>name = ''uv'', version = ''<0.5'', extras = ''''\<rparr>]" example_env]
  by (simp add: install_tools_def install_with_uv_def install_with_pip_def and_then_def lift_def
        validate_path_def run_command_def build_install_command_eq validate_command_def
        log_event_def example_venv_world_def example_world_def example_env_def
        path_exists_def pip_base_def uv_base_def spec_str_concat)

section \<open>The instructions\<close>

lemma format_char:
  "c \<noteq> CHR ''{'' \<Longrightarrow> c \<noteq> CHR ''}'' \<Longrightarrow>
     format_activate (c # cs) v = map_sum id (Cons c) (format_activate cs v)"
  by simp

lemma format_plain:
  "CHR ''{'' \<notin> set s \<Longrightarrow> CHR ''}'' \<notin> set s \<Longrightarrow>
     format_activate (s @ t) v = map_sum id (append s) (format_activate t v)"
proof (induction s)
  case Nil
  show ?case by (cases "format_activate t v") simp_all
next
  case (Cons c s)
  have c: "c \<noteq> CHR ''{''" "c \<noteq> CHR ''}''"
    using Cons.prems by auto
  have "format_activate ((c # s) @ t) v = map_sum id (Cons c) (format_activate (s @ t) v)"
    using format_char [OF c] by simp
  also have "\<dots> = map_sum id (Cons c) (map_sum id (append s) (format_activate t v))"
  proof -
    have "format_activate (s @ t) v = map_sum id (append s) (format_activate t v)"
      by (rule Cons.IH) (use Cons.prems in auto)
    then show ?thesis by (rule arg_cong)
  qed
  also have "\<dots> = map_sum id (append (c # s)) (format_activate t v)"
    by (cases "format_activate t v") simp_all
  finally show ?case .
qed

lemma format_field:
  "format_activate (''{activate}'' @ t) v = map_sum id (append v) (format_activate t v)"
  by simp

lemma format_one_field:
  assumes "CHR ''{'' \<notin> set a" "CHR ''}'' \<notin> set a" "CHR ''{'' \<notin> set b" "CHR ''}'' \<notin> set b"
  shows "format_activate (a @ ''{activate}'' @ b) v = Inr (a @ v @ b)"
proof -
  have "format_activate b v = Inr b"
    using format_plain [OF assms(3,4), of "[]" v] by simp
  then have "format_activate (''{activate}'' @ b) v = Inr (v @ b)"
    using format_field [of b v] by simp
  then show ?thesis
    using format_plain [OF assms(1,2), of "''{activate}'' @ b" v] by simp
qed

lemma TOOL_USAGE_INSTRUCTIONS_plain:
  "CHR ''{'' \<notin> set TOOL_USAGE_INSTRUCTIONS" "CHR ''}'' \<notin> set TOOL_USAGE_INSTRUCTIONS"
  by (simp_all add: TOOL_USAGE_INSTRUCTIONS_def)

lemma before_activate_plain:
  "CHR ''{'' \<notin> set before_activate" "CHR ''}'' \<notin> set before_activate"
  by (simp_all add: before_activate_def)

lemma after_activate_plain:
  "CHR ''{'' \<notin> set after_activate" "CHR ''}'' \<notin> set after_activate"
  by (simp_all add: after_activate_def TOOL_USAGE_INSTRUCTIONS_plain)

lemma print_post_install:
  "print_instructions e POST_INSTALL_MESSAGE =
     Inr (before_activate @ activate_script e @ after_activate)"
  unfolding print_instructions_def POST_INSTALL_MESSAGE_def
  by (rule format_one_field) (rule before_activate_plain after_activate_plain)+

text \<open>
  Claim C8. The activation command is \<open>.venv\Scripts\activate.bat\<close> when the platform
  flag (\<open>sys.platform == "win32"\<close>) is set and \<open>source .venv/bin/activate\<close> when it is
  not, nothing else of the machine being looked at; \<open>print_instructions\<close> puts it in
  place of \<open>{activate}\<close>, and for the script's own template prints the text before the
  placeholder, the command, and the text after it.
\<close>

theorem activation_command_has_two_variants:
  "is_windows e = (platform e = ''win32'')
   \<and> activate_script e =
       (if is_windows e
        then ''.venv'' @ [CHR 0x5C] @ ''Scripts'' @ [CHR 0x5C] @ ''activate.bat''
        else ''source .venv/bin/activate'')
   \<and> print_instructions e template = format_activate template (activate_script e)
   \<and> print_instructions e POST_INSTALL_MESSAGE =
       Inr (before_activate @ activate_script e @ after_activate)"
proof (intro conjI)
  show "is_windows e = (platform e = ''win32'')"
    by (simp add: is_windows_def)
  show "activate_script e =
          (if is_windows e
           then ''.venv'' @ [CHR 0x5C] @ ''Scripts'' @ [CHR 0x5C] @ ''activate.bat''
           else ''source .venv/bin/activate'')"
    by (simp add: activate_script_def)
  show "print_instructions e template = format_activate template (activate_script e)"
    by (simp add: print_instructions_def)
  show "print_instructions e POST_INSTALL_MESSAGE =
          Inr (before_activate @ activate_script e @ after_activate)"
    by (rule print_post_install)
qed

theorem activation_command_has_two_variants_witness:
  "activate_script example_env = ''source .venv/bin/activate''
   \<and> activate_script (example_env\<lparr>platform := ''win32''\<rparr>) =
       [CHR ''.'', CHR ''v'', CHR ''e'', CHR ''n'', CHR ''v'', CHR 0x5C,
        CHR ''S'', CHR ''c'', CHR ''r'', CHR ''i'', CHR ''p'', CHR ''t'', CHR ''s'', CHR 0x5C,
        CHR ''a'', CHR ''c'', CHR ''t'', CHR ''i'', CHR ''v'', CHR ''a'', CHR ''t'', CHR ''e'',
        CHR ''.'', CHR ''b'', CHR ''a'', CHR ''t'']
   \<and> print_instructions example_env ''run {activate} now'' =
       Inr ''run source .venv/bin/activate now''"
  using activation_command_has_two_variants [of example_env "''run {activate} now''"]
        activation_command_has_two_variants [of "example_env\<lparr>platform := ''win32''\<rparr>" "[]"]
  by (simp add: example_env_def is_windows_def)

section \<open>Frames\<close>

lemma and_then_Inr:
  "and_then r k = (Inr y, w') \<Longrightarrow> \<exists>x w0. r = (Inr x, w0) \<and> k x w0 = (Inr y, w')"
  by (auto simp: and_then_def split: prod.splits sum.splits)

lemma and_then_lift:
  "and_then (lift (Inr x) w) k = k x w"
  "and_then (lift (Inl f) w) k = (Inl f, w)"
  by (simp_all add: and_then_def lift_def)

lemma frame_and_then:
  assumes trans: "\<And>a b c. R a b \<Longrightarrow> R b c \<Longrightarrow> R a c"
    and f: "frame R f" and k: "\<And>x. frame R (k x)"
  shows "frame R (\<lambda>w. and_then (f w) k)"
  unfolding frame_def
proof
  fix w
  obtain r w1 where fw: "f w = (r, w1)"
    by (cases "f w")
  have first: "R w w1"
    using f fw by (auto simp: frame_def dest: spec [of _ w])
  show "R w (snd (and_then (f w) k))"
  proof (cases r)
    case (Inl failure)
    then show ?thesis using fw first by (simp add: and_then_def)
  next
    case (Inr x)
    have "R w1 (snd (k x w1))"
      using k [of x] by (simp add: frame_def)
    then show ?thesis
      using fw Inr first trans by (auto simp: and_then_def)
  qed
qed

lemma frame_if:
  "frame R f \<Longrightarrow> frame R g \<Longrightarrow> frame R (\<lambda>w. if c w then f w else g w)"
  by (simp add: frame_def)

lemma frame_return: "(\<And>w. R w w) \<Longrightarrow> frame R (\<lambda>w. (r w, w))"
  by (simp add: frame_def)

lemma frame_lift: "(\<And>w. R w w) \<Longrightarrow> frame R (\<lambda>w. lift (r w) w)"
  by (simp add: frame_def lift_def)

lemma frame_case_list:
  "frame R f \<Longrightarrow> (\<And>x xs. frame R (g x xs)) \<Longrightarrow>
     frame R (\<lambda>w. case l of [] \<Rightarrow> f w | x # xs \<Rightarrow> g x xs w)"
  by (cases l) simp_all

lemma frame_case_sum:
  "(\<And>x. frame R (f x)) \<Longrightarrow> (\<And>y. frame R (g y)) \<Longrightarrow>
     frame R (\<lambda>w. case s of Inl x \<Rightarrow> f x w | Inr y \<Rightarrow> g y w)"
  by (cases s) simp_all

subsection \<open>The cached root and the version-control query\<close>

lemma same_git_refl: "same_git w w"
  by (simp add: same_git_def)

lemma same_git_trans: "same_git a b \<Longrightarrow> same_git b c \<Longrightarrow> same_git a c"
  by (simp add: same_git_def)

lemma run_command_same_git:
  "frame same_git (run_command e (PathArg p # args) check)"
  by (auto simp: frame_def same_git_def git_queries_def run_command_def log_event_def
        git_query_def Let_def split: sum.splits proc_result.splits)

lemma run_install_same_git:
  "frame same_git (run_command e (pip_base p @ args) check)"
  "frame same_git (run_command e (uv_base p @ args) check)"
  by (simp_all add: pip_base_def uv_base_def run_command_same_git)

lemma create_venv_same_git: "frame same_git (create_venv e venv_dir)"
  by (auto simp: frame_def same_git_def git_queries_def create_venv_def log_event_def
        Let_def split: venv_result.splits prod.splits)

lemma pip_module_is_available_same_git:
  "frame same_git (pip_module_is_available e python_exe)"
  by (auto simp: frame_def same_git_def git_queries_def pip_module_is_available_def
        log_event_def and_then_def lift_def validate_path_def pip_probe_def git_query_def
        Let_def split: option.splits proc_result.splits)

lemmas same_git_rules =
  frame_and_then [where R = same_git, OF same_git_trans]
  frame_if [where R = same_git]
  frame_return [where R = same_git, OF same_git_refl]
  frame_lift [where R = same_git, OF same_git_refl]
  frame_case_list [where R = same_git]
  frame_case_sum [where R = same_git]
  run_command_same_git run_install_same_git create_venv_same_git
  pip_module_is_available_same_git

lemma create_virtual_environment_same_git:
  "frame same_git (\<lambda>w. create_virtual_environment e venv_dir python_exe w)"
  unfolding create_virtual_environment_def Let_def ensurepip_command_def
    pip_script_upgrade_def pip_module_upgrade_def
  by (intro same_git_rules)

lemma install_with_pip_same_git:
  "frame same_git (\<lambda>w. install_with_pip e python_exe modules w)"
  unfolding install_with_pip_def build_pip and_then_lift
  by (intro same_git_rules)

lemma install_with_uv_same_git:
  "frame same_git (\<lambda>w. install_with_uv e python_exe modules w)"
  unfolding install_with_uv_def build_uv and_then_lift Let_def
  by (intro same_git_rules install_with_pip_same_git)

lemma install_tools_same_git:
  "frame same_git (\<lambda>w. install_tools e python_exe modules w)"
  unfolding install_tools_def Let_def
  by (intro same_git_rules install_with_pip_same_git install_with_uv_same_git)

section \<open>The Repository Locator\<close>

lemma get_git_root_cached: "git_root_cache w = Some p \<Longrightarrow> get_git_root e w = (Inr p, w)"
  by (simp add: get_git_root_def)

lemma get_git_root_stores: "get_git_root e w = (Inr p, w1) \<Longrightarrow> git_root_cache w1 = Some p"
  by (auto simp: get_git_root_def log_event_def Let_def
        split: option.splits proc_result.splits if_splits)

lemma get_git_root_queries: "git_queries (snd (get_git_root e w)) \<le> Suc (git_queries w)"
  by (simp add: get_git_root_def git_queries_def log_event_def Let_def
        split: option.splits proc_result.splits)

lemma prompt_world:
  assumes "get_git_root e w = (Inr root, w1)"
  shows "\<exists>r rest. confirmation_prompt e w = (r, w1\<lparr>stdin := rest\<rparr>)"
proof -
  obtain a rest where "ask [] (stdin w1) = (a, rest)"
    by (cases "ask [] (stdin w1)")
  then have "snd (confirmation_prompt e w) = w1\<lparr>stdin := rest\<rparr>"
    using assms by (simp add: confirmation_prompt_def split: sum.splits exn.splits)
  then have "confirmation_prompt e w = (fst (confirmation_prompt e w), w1\<lparr>stdin := rest\<rparr>)"
    by (simp add: prod_eq_iff)
  then show ?thesis by blast
qed

lemma and_then_pair:
  "and_then (Inr x, w) k = k x w"
  "and_then (Inl f, w) k = (Inl f, w)"
  by (simp_all add: and_then_def)

text \<open>What \<open>main\<close> does once the root is known leaves the cache and the query count alone.\<close>

lemma after_root_same_git:
  "frame same_git
     (\<lambda>w. and_then (create_virtual_environment e venv_dir python_exe w) (\<lambda>_ w.
           and_then (install_tools e python_exe modules w) (\<lambda>_ w.
             case print_instructions e template of
               Inl x \<Rightarrow> (Inl (Raised x), w)
             | Inr instructions \<Rightarrow> (Inr (0::int), w))))"
  by (intro same_git_rules create_virtual_environment_same_git install_tools_same_git)

lemma frame_apply: "frame R f \<Longrightarrow> R w (snd (f w))"
  by (simp add: frame_def)

lemma main_queries: "git_queries (snd (main e w)) \<le> Suc (git_queries w)"
proof -
  obtain r w1 where root: "get_git_root e w = (r, w1)"
    by (cases "get_git_root e w")
  have q1: "git_queries w1 \<le> Suc (git_queries w)"
    using get_git_root_queries [of e w] root by simp
  show ?thesis
  proof (cases r)
    case (Inl f)
    then have "confirmation_prompt e w = (Inl f, w1)"
      using root by (simp add: confirmation_prompt_def)
    then have "main e w = (Inl f, w1)"
      by (simp add: main_def and_then_pair)
    then show ?thesis using q1 by simp
  next
    case (Inr git_root)
    then obtain answer rest where
      prompt: "confirmation_prompt e w = (answer, w1\<lparr>stdin := rest\<rparr>)"
      using prompt_world root by blast
    let ?w2 = "w1\<lparr>stdin := rest\<rparr>"
    have q2: "git_queries ?w2 = git_queries w1"
      by (simp add: git_queries_def)
    have "git_root_cache w1 = Some git_root"
      using root Inr by (intro get_git_root_stores [of e w]) simp
    then have cached: "get_git_root e ?w2 = (Inr git_root, ?w2)"
      by (intro get_git_root_cached) simp
    show ?thesis
    proof (cases "answer = Inr True")
      case False
      then have "snd (main e w) = ?w2"
        using prompt by (cases answer) (simp_all add: main_def and_then_pair)
      then show ?thesis using q1 q2 by simp
    next
      case True
      let ?venv_dir = "git_root @ [''.venv'']"
      let ?python_exe = "path_to_venv_python e ?venv_dir"
      let ?rest = "\<lambda>w. and_then (create_virtual_environment e ?venv_dir ?python_exe w) (\<lambda>_ w.
                       and_then (install_tools e ?python_exe BOOTSTRAP_MODULES w) (\<lambda>_ w.
                         case print_instructions e POST_INSTALL_MESSAGE of
                           Inl x \<Rightarrow> (Inl (Raised x), w)
                         | Inr instructions \<Rightarrow> (Inr (0::int), w)))"
      have "main e w = ?rest ?w2"
        using prompt True cached by (simp add: main_def and_then_pair Let_def)
      moreover have "same_git ?w2 (snd (?rest ?w2))"
        by (rule frame_apply [of same_git ?rest ?w2, OF after_root_same_git])
      ultimately have "git_queries (snd (main e w)) = git_queries ?w2"
        by (simp only: same_git_def)
      then show ?thesis using q1 q2 by simp
    qed
  qed
qed

lemma compiles_above_minimum: "\<not> below_minimum e \<Longrightarrow> compiles e"
  by (auto simp: compiles_def below_minimum_def split: prod.splits)

lemma script_queries: "git_queries (snd (script e w)) \<le> Suc (git_queries w)"
proof (cases "below_minimum e")
  case True
  then show ?thesis by (simp add: script_def)
next
  case False
  have "snd (script e w) = snd (main e w)"
    using False compiles_above_minimum [of e]
    by (simp add: script_def and_then_def split: prod.splits sum.splits)
  then show ?thesis using main_queries [of e w] by simp
qed

text \<open>
  Claim C9. When \<open>get_git_root\<close> has returned a path, calling it again returns the same
  path and leaves the world as it is, so no command is issued; and a whole run of the
  script issues the version-control query at most once.
\<close>

theorem get_git_root_is_memoized:
  "(get_git_root e w = (Inr p, w1) \<longrightarrow> get_git_root e w1 = (Inr p, w1))
   \<and> git_queries (snd (script e w)) \<le> Suc (git_queries w)"
proof (intro conjI impI)
  assume "get_git_root e w = (Inr p, w1)"
  then have "git_root_cache w1 = Some p"
    by (rule get_git_root_stores)
  then show "get_git_root e w1 = (Inr p, w1)"
    by (rule get_git_root_cached)
next
  show "git_queries (snd (script e w)) \<le> Suc (git_queries w)"
    by (rule script_queries)
qed

theorem get_git_root_is_memoized_witness:
  "get_git_root example_env example_world =
     (Inr [''home'', ''dev'', ''proj''],
      example_world\<lparr>events := [Spawn git_query],
                    git_root_cache := Some [''home'', ''dev'', ''proj'']\<rparr>)
   \<and> get_git_root example_env
       (example_world\<lparr>events := [Spawn git_query],
                      git_root_cache := Some [''home'', ''dev'', ''proj'']\<rparr>) =
     (Inr [''home'', ''dev'', ''proj''],
      example_world\<lparr>events := [Spawn git_query],
                    git_root_cache := Some [''home'', ''dev'', ''proj'']\<rparr>)
   \<and> git_queries (snd (script example_env example_world)) \<le> 1"
proof -
  have first:
    "get_git_root example_env example_world =
       (Inr [''home'', ''dev'', ''proj''],
        example_world\<lparr>events := [Spawn git_query],
                      git_root_cache := Some [''home'', ''dev'', ''proj'']\<rparr>)"
    by (simp add: get_git_root_def example_env_def example_world_def log_event_def)
  have "git_queries example_world = 0"
    by (simp add: git_queries_def example_world_def)
  then show ?thesis
    using first
      get_git_root_is_memoized
        [of example_env example_world "[''home'', ''dev'', ''proj'']"
            "example_world\<lparr>events := [Spawn git_query],
                           git_root_cache := Some [''home'', ''dev'', ''proj'']\<rparr>"]
    by simp
qed

section \<open>Interrupting the prompt\<close>

lemma ask_interrupt:
  "unanswered choice \<Longrightarrow> \<forall>s\<in>set ls. unanswered s \<Longrightarrow>
     ask choice (map Line ls @ Interrupt # rest) = (Inl KeyboardInterrupt, rest)"
  by (induction ls arbitrary: choice) simp_all

lemma script_of_main:
  "\<not> below_minimum e \<Longrightarrow> fst (script e w) = map_sum id (\<lambda>_. ()) (fst (main e w))"
  by (simp add: script_def compiles_above_minimum and_then_def split: prod.splits sum.splits)

text \<open>
  Claim C7. When the repository root has been found and the user, after any number of
  lines that are no answer, interrupts the prompt, \<open>confirmation_prompt\<close> returns
  \<open>False\<close> (the \<open>KeyboardInterrupt\<close> goes no further), \<open>main\<close> ends with
  \<open>sys.exit(0)\<close>, nothing having been created or installed, and the exit status of the
  script is 0.
\<close>

theorem interrupt_is_a_no:
  assumes "get_git_root e w = (Inr root, w1)"
    and "stdin w = map Line ls @ Interrupt # rest"
    and "\<forall>s\<in>set ls. unanswered s"
  shows "confirmation_prompt e w = (Inr False, w1\<lparr>stdin := rest\<rparr>)
         \<and> main e w = (Inl (SysExit 0), w1\<lparr>stdin := rest\<rparr>)
         \<and> (\<not> below_minimum e \<longrightarrow> exit_status e (fst (script e w)) = Some 0)"
proof -
  have "stdin w1 = map Line ls @ Interrupt # rest"
    using get_git_root_stdin [of e w] assms(1,2) by simp
  then have "ask [] (stdin w1) = (Inl KeyboardInterrupt, rest)"
    using ask_interrupt [OF unanswered_empty assms(3)] by simp
  then have prompt: "confirmation_prompt e w = (Inr False, w1\<lparr>stdin := rest\<rparr>)"
    using assms(1) by (simp add: confirmation_prompt_def)
  then have aborted: "main e w = (Inl (SysExit 0), w1\<lparr>stdin := rest\<rparr>)"
    by (simp add: main_def and_then_pair)
  then have "\<not> below_minimum e \<Longrightarrow> exit_status e (fst (script e w)) = Some 0"
    by (simp add: script_of_main exit_code_def)
  then show ?thesis
    using prompt aborted by blast
qed

theorem interrupt_is_a_no_witness:
  "confirmation_prompt example_env
     (example_world\<lparr>stdin := [Line ''maybe'', Interrupt, Line ''y'']\<rparr>) =
     (Inr False,
      example_world\<lparr>events := [Spawn git_query],
                    git_root_cache := Some [''home'', ''dev'', ''proj''],
                    stdin := [Line ''y'']\<rparr>)
   \<and> exit_status example_env
       (fst (script example_env
               (example_world\<lparr>stdin := [Line ''maybe'', Interrupt, Line ''y'']\<rparr>))) = Some 0"
proof -
  have root:
    "get_git_root example_env
       (example_world\<lparr>stdin := [Line ''maybe'', Interrupt, Line ''y'']\<rparr>) =
       (Inr [''home'', ''dev'', ''proj''],
        example_world\<lparr>events := [Spawn git_query],
                      git_root_cache := Some [''home'', ''dev'', ''proj''],
                      stdin := [Line ''maybe'', Interrupt, Line ''y'']\<rparr>)"
    by (simp add: get_git_root_def example_env_def example_world_def log_event_def)
  have input:
    "stdin (example_world\<lparr>stdin := [Line ''maybe'', Interrupt, Line ''y'']\<rparr>) =
       map Line [''maybe''] @ Interrupt # [Line ''y'']"
    by simp
  have no_answer: "\<forall>s\<in>set [''maybe'']. unanswered s"
    by code_simp
  have version: "\<not> below_minimum example_env"
    by (simp add: below_minimum_def example_env_def)
  show ?thesis
    using interrupt_is_a_no [OF root input no_answer] version
    by (simp add: example_world_def)
qed

section \<open>The Environment Builder\<close>

lemma still_there_refl: "still_there d w w"
  by (simp add: still_there_def)

lemma still_there_trans: "still_there d a b \<Longrightarrow> still_there d b c \<Longrightarrow> still_there d a c"
  by (simp add: still_there_def)

lemma keeps_path:
  assumes "keeps e d" and "spawn e cmd (fsys w) = Exited rc fs'"
    and "d \<in> fst (fsys w) \<or> d \<in> snd (fsys w)"
  shows "d \<in> fst fs' \<or> d \<in> snd fs'"
  using assms unfolding keeps_def by fastforce

lemma run_command_still_there:
  assumes "keeps e d"
  shows "frame (still_there d) (run_command e cmd check)"
  unfolding frame_def
proof
  fix w
  show "still_there d w (snd (run_command e cmd check w))"
  proof (cases "validate_command cmd")
    case (Inl f)
    then show ?thesis by (simp add: run_command_def still_there_def)
  next
    case (Inr u)
    show ?thesis
    proof (cases "spawn e cmd (fsys w)")
      case NotFound
      then show ?thesis
        using Inr
        by (simp add: run_command_def still_there_def creations_def log_event_def
              path_exists_def)
    next
      case (Exited rc fs')
      then show ?thesis
        using Inr keeps_path [OF assms Exited]
        by (auto simp: run_command_def still_there_def creations_def log_event_def
              path_exists_def Let_def)
    qed
  qed
qed

lemma pip_module_is_available_still_there:
  assumes "keeps e d"
  shows "frame (still_there d) (pip_module_is_available e python_exe)"
  unfolding frame_def
proof
  fix w
  show "still_there d w (snd (pip_module_is_available e python_exe w))"
  proof (cases "map_of (pip_cache w) python_exe")
    case (Some b)
    then show ?thesis by (simp add: pip_module_is_available_def still_there_def)
  next
    case None
    show ?thesis
    proof (cases "path_exists w python_exe")
      case False
      then show ?thesis
        using None
        by (simp add: pip_module_is_available_def still_there_def validate_path_def
              and_then_lift)
    next
      case True
      show ?thesis
      proof (cases "spawn e (pip_probe python_exe) (fsys w)")
        case NotFound
        then show ?thesis
          using None True
          by (simp add: pip_module_is_available_def still_there_def validate_path_def
                and_then_lift creations_def log_event_def path_exists_def)
      next
        case (Exited rc fs')
        then show ?thesis
          using None True keeps_path [OF assms Exited]
          by (auto simp: pip_module_is_available_def still_there_def validate_path_def
                and_then_lift creations_def log_event_def path_exists_def)
      qed
    qed
  qed
qed

text \<open>What \<open>create_virtual_environment\<close> does after \<open>venv.create\<close>.\<close>

lemma after_create_still_there:
  assumes "keeps e d"
  shows "frame (still_there d)
     (\<lambda>w. and_then (run_command e (ensurepip_command python_exe) True w) (\<lambda>_ w.
           and_then (pip_module_is_available e python_exe w) (\<lambda>available w.
             if \<not> available then
               (if \<not> path_exists w pip_path then (Inl (SysExit 1), w)
                else run_command e (pip_script_upgrade pip_path) True w)
             else run_command e (pip_module_upgrade python_exe) True w)))"
  by (intro frame_and_then [where R = "still_there d", OF still_there_trans]
        frame_if [where R = "still_there d"]
        frame_return [where R = "still_there d", OF still_there_refl]
        run_command_still_there [OF assms]
        pip_module_is_available_still_there [OF assms])

lemma create_venv_creates:
  "create_venv e d w = (Inr (), wa) \<Longrightarrow>
     path_exists wa d \<and> creations d wa = Suc (creations d w)"
  by (auto simp: create_venv_def path_exists_def creations_def log_event_def Let_def
        split: venv_result.splits prod.splits)

lemma create_virtual_environment_present:
  "path_exists w d \<Longrightarrow> create_virtual_environment e d python_exe w = (Inr (), w)"
  by (simp add: create_virtual_environment_def)

lemma create_virtual_environment_first:
  assumes keeps: "keeps e d"
    and absent: "\<not> path_exists w d"
    and returned: "create_virtual_environment e d python_exe w = (Inr (), w1)"
  shows "path_exists w1 d \<and> creations d w1 = Suc (creations d w)"
proof -
  let ?pip_path = "if is_windows e then d @ [''Scripts'', ''pip.exe''] else d @ [''bin'', ''pip'']"
  let ?rest =
    "\<lambda>w. and_then (run_command e (ensurepip_command python_exe) True w) (\<lambda>_ w.
          and_then (pip_module_is_available e python_exe w) (\<lambda>available w.
            if \<not> available then
              (if \<not> path_exists w ?pip_path then (Inl (SysExit 1), w)
               else run_command e (pip_script_upgrade ?pip_path) True w)
            else run_command e (pip_module_upgrade python_exe) True w))"
  have "create_virtual_environment e d python_exe w =
          and_then (create_venv e d w) (\<lambda>_. ?rest)"
    unfolding create_virtual_environment_def Let_def using absent by simp
  then have "and_then (create_venv e d w) (\<lambda>_. ?rest) = (Inr (), w1)"
    using returned by simp
  then obtain u wa where created: "create_venv e d w = (Inr u, wa)"
    and rest: "?rest wa = (Inr (), w1)"
    using and_then_Inr [of "create_venv e d w" "\<lambda>_. ?rest" "()" w1] by blast
  have a: "path_exists wa d \<and> creations d wa = Suc (creations d w)"
    using created by (intro create_venv_creates [of e d w wa]) simp
  have "still_there d wa (snd (?rest wa))"
    by (rule frame_apply [of "still_there d" ?rest wa, OF after_create_still_there [OF keeps]])
  then have "still_there d wa w1"
    using rest by simp
  then show ?thesis
    using a by (simp add: still_there_def)
qed

text \<open>
  Claim C5. Where no command removes the target directory: when the directory is there,
  \<open>create_virtual_environment\<close> returns with the world as it was, so nothing is created
  and nothing is run; when it is not there and the call returns, \<open>venv.create\<close> has been
  called for it once more than before, and a second call on the world so reached
  returns with that world unchanged.
\<close>

theorem create_virtual_environment_is_idempotent:
  assumes "keeps e venv_dir"
  shows "(path_exists w venv_dir \<longrightarrow>
            create_virtual_environment e venv_dir python_exe w = (Inr (), w))
         \<and> (\<not> path_exists w venv_dir
              \<and> create_virtual_environment e venv_dir python_exe w = (Inr (), w1) \<longrightarrow>
            creations venv_dir w1 = Suc (creations venv_dir w)
            \<and> create_virtual_environment e venv_dir python_exe w1 = (Inr (), w1))"
proof (intro conjI impI)
  assume "path_exists w venv_dir"
  then show "create_virtual_environment e venv_dir python_exe w = (Inr (), w)"
    by (rule create_virtual_environment_present)
next
  assume first: "\<not> path_exists w venv_dir
                 \<and> create_virtual_environment e venv_dir python_exe w = (Inr (), w1)"
  then show "creations venv_dir w1 = Suc (creations venv_dir w)"
    using create_virtual_environment_first [OF assms, of w python_exe w1] by simp
  have "path_exists w1 venv_dir"
    using first create_virtual_environment_first [OF assms, of w python_exe w1] by simp
  then show "create_virtual_environment e venv_dir python_exe w1 = (Inr (), w1)"
    by (rule create_virtual_environment_present)
qed

lemma example_keeps: "keeps example_env example_venv_dir"
  by (simp add: keeps_def example_env_def)

lemma example_first_run:
  "create_virtual_environment example_env example_venv_dir example_python example_world =
     (Inr (), example_built_world)"
  by (auto simp: create_virtual_environment_def create_venv_def run_command_def
        pip_module_is_available_def and_then_def lift_def validate_path_def
        validate_command_def log_event_def path_exists_def
        ensurepip_command_def pip_probe_def pip_module_upgrade_def
        example_env_def example_world_def example_python_def example_venv_dir_def
        example_built_world_def)

theorem create_virtual_environment_is_idempotent_witness:
  "\<not> path_exists example_world example_venv_dir
   \<and> create_virtual_environment example_env example_venv_dir example_python example_world =
       (Inr (), example_built_world)
   \<and> creations example_venv_dir example_built_world = 1
   \<and> path_exists example_built_world example_venv_dir
   \<and> create_virtual_environment example_env example_venv_dir example_python
         example_built_world = (Inr (), example_built_world)"
proof -
  have absent: "\<not> path_exists example_world example_venv_dir"
    by (simp add: path_exists_def example_world_def example_venv_dir_def)
  have before: "creations example_venv_dir example_world = 0"
    by (simp add: creations_def example_world_def)
  have present: "path_exists example_built_world example_venv_dir"
    by (simp add: path_exists_def example_built_world_def example_venv_dir_def)
  show ?thesis
    using absent before present example_first_run
      create_virtual_environment_is_idempotent
        [OF example_keeps, of example_world example_python example_built_world]
    by simp
qed

section \<open>Exit codes\<close>

subsection \<open>The interpreter and the version check\<close>

lemma script_does_not_compile:
  "\<not> compiles e \<Longrightarrow> script e w = (Inl (Raised SyntaxError), w)"
  by (simp add: script_def)

lemma script_too_old:
  "compiles e \<Longrightarrow> below_minimum e \<Longrightarrow> script e w = (Inl (SysExit 2), w)"
  by (simp add: script_def)

lemma exit_code_small: "0 \<le> n \<Longrightarrow> n < 256 \<Longrightarrow> exit_code e n = Some n"
  by (simp add: exit_code_def)

lemma exit_code_windows:
  "is_windows e \<Longrightarrow> 0 \<le> n \<Longrightarrow> n < 2 ^ 31 \<Longrightarrow> exit_code e n = Some n"
  by (simp add: exit_code_def)

lemma exit_code_signal: "\<not> is_windows e \<Longrightarrow> exit_code e (- 9) = Some 247"
  by (simp add: exit_code_def)

lemma script_status:
  assumes "\<not> below_minimum e"
  shows "exit_status e (fst (script e w)) = exit_status e (fst (main e w))"
proof -
  have same: "fst (script e w) = map_sum id (\<lambda>_. ()) (fst (main e w))"
    using assms by (rule script_of_main)
  show ?thesis
  proof (cases "fst (main e w)")
    case (Inl f)
    then show ?thesis using same by (cases f) simp_all
  next
    case (Inr v)
    then show ?thesis using same by simp
  qed
qed

text \<open>The status is 2 exactly for Python 3.6 and 3.7; an older interpreter gives 1.\<close>

lemma version_check_status:
  "below_minimum e \<Longrightarrow>
     exit_status e (fst (script e w)) = (if compiles e then Some 2 else Some 1)"
  by (simp add: script_def exit_code_def)

subsection \<open>The step that fails\<close>

lemma run_command_missing:
  "validate_command cmd = Inr () \<Longrightarrow> spawn e cmd (fsys w) = NotFound \<Longrightarrow>
     fst (run_command e cmd check w) = Inl (SysExit 1)"
  by (simp add: run_command_valid)

lemma run_command_failed:
  "validate_command cmd = Inr () \<Longrightarrow> spawn e cmd (fsys w) = Exited rc fs' \<Longrightarrow> rc \<noteq> 0 \<Longrightarrow>
     fst (run_command e cmd True w) = Inl (SysExit rc)"
  by (simp add: run_command_valid)

lemma git_failed:
  "git_root_cache w = None \<Longrightarrow> spawn e git_query (fsys w) = Exited rc fs' \<Longrightarrow> rc \<noteq> 0 \<Longrightarrow>
     fst (get_git_root e w) = Inl (SysExit 1)"
  by (simp add: get_git_root_def Let_def)

lemma no_git_directory:
  "git_root_cache w = None \<Longrightarrow> spawn e git_query (fsys w) = NotFound \<Longrightarrow>
     find (\<lambda>parent. is_dir w (parent @ [''.git''])) (cwd e # parents (cwd e)) = None \<Longrightarrow>
     fst (get_git_root e w) = Inl (SysExit 1)"
  by (simp add: get_git_root_def Let_def)

subsection \<open>A step that fails ends the steps around it\<close>

lemma prompt_passes_on:
  "get_git_root e w = (Inl f, w1) \<Longrightarrow> confirmation_prompt e w = (Inl f, w1)"
  by (simp add: confirmation_prompt_def)

lemma builder_passes_on:
  assumes "\<not> path_exists w venv_dir"
  shows "create_venv e venv_dir w = (Inl f, wa) \<Longrightarrow>
           create_virtual_environment e venv_dir python_exe w = (Inl f, wa)"
    and "create_venv e venv_dir w = (Inr (), wa) \<Longrightarrow>
         run_command e (ensurepip_command python_exe) True wa = (Inl f, wb) \<Longrightarrow>
           create_virtual_environment e venv_dir python_exe w = (Inl f, wb)"
    and "create_venv e venv_dir w = (Inr (), wa) \<Longrightarrow>
         run_command e (ensurepip_command python_exe) True wa = (Inr (), wb) \<Longrightarrow>
         pip_module_is_available e python_exe wb = (Inl f, wc) \<Longrightarrow>
           create_virtual_environment e venv_dir python_exe w = (Inl f, wc)"
    and "create_venv e venv_dir w = (Inr (), wa) \<Longrightarrow>
         run_command e (ensurepip_command python_exe) True wa = (Inr (), wb) \<Longrightarrow>
         pip_module_is_available e python_exe wb = (Inr True, wc) \<Longrightarrow>
           create_virtual_environment e venv_dir python_exe w =
             run_command e (pip_module_upgrade python_exe) True wc"
    and "create_venv e venv_dir w = (Inr (), wa) \<Longrightarrow>
         run_command e (ensurepip_command python_exe) True wa = (Inr (), wb) \<Longrightarrow>
         pip_module_is_available e python_exe wb = (Inr False, wc) \<Longrightarrow>
         path_exists wc (if is_windows e then venv_dir @ [''Scripts'', ''pip.exe'']
                         else venv_dir @ [''bin'', ''pip'']) \<Longrightarrow>
           create_virtual_environment e venv_dir python_exe w =
             run_command e
               (pip_script_upgrade (if is_windows e then venv_dir @ [''Scripts'', ''pip.exe'']
                                    else venv_dir @ [''bin'', ''pip''])) True wc"
  unfolding create_virtual_environment_def Let_def
  using assms by (simp_all add: and_then_pair)

lemma broken_install:
  assumes "\<not> path_exists w venv_dir"
    and "create_venv e venv_dir w = (Inr (), wa)"
    and "run_command e (ensurepip_command python_exe) True wa = (Inr (), wb)"
    and "pip_module_is_available e python_exe wb = (Inr False, wc)"
    and "\<not> path_exists wc (if is_windows e then venv_dir @ [''Scripts'', ''pip.exe'']
                            else venv_dir @ [''bin'', ''pip''])"
  shows "create_virtual_environment e venv_dir python_exe w = (Inl (SysExit 1), wc)"
  unfolding create_virtual_environment_def Let_def
  using assms by (simp add: and_then_pair)

text \<open>
  \<open>main\<close>, step by step: the prompt, the locator, the builder, the installer. Whatever
  failure a step ends with is the failure \<open>main\<close> ends with, in the world that step left.
\<close>

lemma main_passes_on:
  "confirmation_prompt e w = (Inl f, w1) \<Longrightarrow> main e w = (Inl f, w1)"
  "confirmation_prompt e w = (Inr False, w1) \<Longrightarrow> main e w = (Inl (SysExit 0), w1)"
  "confirmation_prompt e w = (Inr True, w1) \<Longrightarrow> get_git_root e w1 = (Inl f, w2) \<Longrightarrow>
     main e w = (Inl f, w2)"
  "confirmation_prompt e w = (Inr True, w1) \<Longrightarrow> get_git_root e w1 = (Inr git_root, w2) \<Longrightarrow>
   create_virtual_environment e (git_root @ [''.venv''])
     (path_to_venv_python e (git_root @ [''.venv''])) w2 = (Inl f, w3) \<Longrightarrow>
     main e w = (Inl f, w3)"
  "confirmation_prompt e w = (Inr True, w1) \<Longrightarrow> get_git_root e w1 = (Inr git_root, w2) \<Longrightarrow>
   create_virtual_environment e (git_root @ [''.venv''])
     (path_to_venv_python e (git_root @ [''.venv''])) w2 = (Inr (), w3) \<Longrightarrow>
   install_tools e (path_to_venv_python e (git_root @ [''.venv''])) BOOTSTRAP_MODULES w3 =
     (Inl f, w4) \<Longrightarrow>
     main e w = (Inl f, w4)"
  "confirmation_prompt e w = (Inr True, w1) \<Longrightarrow> get_git_root e w1 = (Inr git_root, w2) \<Longrightarrow>
   create_virtual_environment e (git_root @ [''.venv''])
     (path_to_venv_python e (git_root @ [''.venv''])) w2 = (Inr (), w3) \<Longrightarrow>
   install_tools e (path_to_venv_python e (git_root @ [''.venv''])) BOOTSTRAP_MODULES w3 =
     (Inr (), w4) \<Longrightarrow>
     main e w = (Inr 0, w4)"
  by (simp_all add: main_def and_then_pair Let_def print_post_install)

subsection \<open>The status of the whole script\<close>

text \<open>
  From Python 3.8 on, the status of the script is that of the step of \<open>main\<close> that
  failed, and 0 when the user declines or \<open>main\<close> returns.
\<close>

lemma script_status_by_step:
  assumes "\<not> below_minimum e"
  shows "confirmation_prompt e w = (Inl f, w1) \<Longrightarrow>
           exit_status e (fst (script e w)) = exit_status e (Inl f :: failure + unit)"
    and "confirmation_prompt e w = (Inr False, w1) \<Longrightarrow>
           exit_status e (fst (script e w)) = Some 0"
    and "confirmation_prompt e w = (Inr True, w1) \<Longrightarrow>
         get_git_root e w1 = (Inl f, w2) \<Longrightarrow>
           exit_status e (fst (script e w)) = exit_status e (Inl f :: failure + unit)"
    and "confirmation_prompt e w = (Inr True, w1) \<Longrightarrow>
         get_git_root e w1 = (Inr git_root, w2) \<Longrightarrow>
         create_virtual_environment e (git_root @ [''.venv''])
           (path_to_venv_python e (git_root @ [''.venv''])) w2 = (Inl f, w3) \<Longrightarrow>
           exit_status e (fst (script e w)) = exit_status e (Inl f :: failure + unit)"
    and "confirmation_prompt e w = (Inr True, w1) \<Longrightarrow>
         get_git_root e w1 = (Inr git_root, w2) \<Longrightarrow>
         create_virtual_environment e (git_root @ [''.venv''])
           (path_to_venv_python e (git_root @ [''.venv''])) w2 = (Inr (), w3) \<Longrightarrow>
         install_tools e (path_to_venv_python e (git_root @ [''.venv''])) BOOTSTRAP_MODULES w3 =
           (Inl f, w4) \<Longrightarrow>
           exit_status e (fst (script e w)) = exit_status e (Inl f :: failure + unit)"
    and "confirmation_prompt e w = (Inr True, w1) \<Longrightarrow>
         get_git_root e w1 = (Inr git_root, w2) \<Longrightarrow>
         create_virtual_environment e (git_root @ [''.venv''])
           (path_to_venv_python e (git_root @ [''.venv''])) w2 = (Inr (), w3) \<Longrightarrow>
         install_tools e (path_to_venv_python e (git_root @ [''.venv''])) BOOTSTRAP_MODULES w3 =
           (Inr (), w4) \<Longrightarrow>
           exit_status e (fst (script e w)) = Some 0"
  using assms
  by (simp_all add: script_of_main main_passes_on exit_code_def split: failure.splits)

text \<open>
  When \<open>main\<close> ends with \<open>sys.exit\<close> of the code of a child that exited with a code
  other than 0, that code is the status of the script: for the codes 1 to 255 that a child
  can exit with on POSIX, and on Windows for the codes below \<open>2 ^ 31\<close>.
\<close>

lemma checked_child_status:
  assumes "\<not> below_minimum e" and "fst (main e w) = Inl (SysExit rc)" and "0 < rc"
    and "rc < 256 \<or> (is_windows e \<and> rc < 2 ^ 31)"
  shows "exit_status e (fst (script e w)) = Some rc"
proof -
  have "exit_code e rc = Some rc"
    using assms(3,4) exit_code_small [of rc e] exit_code_windows [of e rc] by auto
  then show ?thesis
    using assms(1,2) by (simp add: script_status)
qed

text \<open>Outside a checkout the script ends with status 1, whatever the rest of the machine.\<close>

lemma not_in_a_checkout:
  assumes "\<not> below_minimum e" and "git_root_cache w = None"
    and "(\<exists>rc fs'. spawn e git_query (fsys w) = Exited rc fs' \<and> rc \<noteq> 0)
         \<or> (spawn e git_query (fsys w) = NotFound
             \<and> find (\<lambda>parent. is_dir w (parent @ [''.git''])) (cwd e # parents (cwd e)) = None)"
  shows "exit_status e (fst (script e w)) = Some 1"
proof -
  have "fst (get_git_root e w) = Inl (SysExit 1)"
    using assms(2,3) git_failed [of w e] no_git_directory [of w e] by blast
  then obtain w1 where "get_git_root e w = (Inl (SysExit 1), w1)"
    by (cases "get_git_root e w") simp
  then have "confirmation_prompt e w = (Inl (SysExit 1), w1)"
    by (rule prompt_passes_on)
  then have "exit_status e (fst (script e w)) = exit_status e (Inl (SysExit 1) :: failure + unit)"
    by (rule script_status_by_step(1) [OF assms(1)])
  then show ?thesis
    by (simp add: exit_code_def)
qed

subsection \<open>The example machines, run from start to end\<close>

lemmas run_defs =
  script_def main_def compiles_def below_minimum_def confirmation_prompt_def get_git_root_def
  create_virtual_environment_def create_venv_def run_command_def pip_module_is_available_def
  install_tools_def install_with_uv_def install_with_pip_def build_install_command_eq
  validate_command_def validate_path_def path_to_venv_python_def is_windows_def
  and_then_def lift_def log_event_def path_exists_def is_dir_def parents_def
  ensurepip_command_def pip_probe_def pip_module_upgrade_def pip_script_upgrade_def
  pip_base_def uv_base_def spec_str_concat BOOTSTRAP_MODULES_def git_query_def
  unanswered_def answers_normalized print_post_install exit_code_def Let_def

lemma run_ok:
  "exit_status example_env (fst (script example_env example_world)) = Some 0"
  by (simp add: run_defs example_env_def example_world_def)

lemma run_declined:
  "exit_status example_env
     (fst (script example_env (example_world\<lparr>stdin := [Line ''n'']\<rparr>))) = Some 0"
  by (simp add: run_defs example_env_def example_world_def)

lemma run_pip_fails:
  "exit_status pip_failing_env (fst (script pip_failing_env example_world)) = Some 7"
  by (simp add: run_defs pip_failing_env_def example_env_def example_world_def)

lemma run_missing_python:
  "exit_status missing_python_env (fst (script missing_python_env example_world)) = Some 1"
  by (simp add: run_defs missing_python_env_def example_env_def example_world_def)

lemma run_not_a_repo:
  "exit_status not_a_repo_env (fst (script not_a_repo_env example_world)) = Some 1"
  by (simp add: run_defs not_a_repo_env_def example_env_def example_world_def)

lemma run_no_git:
  "exit_status no_git_env (fst (script no_git_env outside_world)) = Some 1"
  by (simp add: run_defs no_git_env_def outside_world_def example_env_def example_world_def)

lemma run_broken_pip:
  "exit_status broken_pip_env (fst (script broken_pip_env example_world)) = Some 1"
  by (simp add: run_defs broken_pip_env_def example_env_def example_world_def)

lemma run_python37:
  "script python37_env example_world = (Inl (SysExit 2), example_world)"
  by (simp add: script_def compiles_def below_minimum_def python37_env_def example_env_def)

text \<open>
  Claim C6. Every class of failure but one ends the script with the status the claim gives
  (\<open>script_status_by_step\<close>, \<open>not_in_a_checkout\<close>, \<open>run_command_missing\<close>,
  \<open>run_command_failed\<close>, \<open>broken_install\<close> and the runs above). The exception is the
  interpreter below the minimum: the version check gives 2 under Python 3.7, but under
  Python 3.5 the file does not compile, the check is never run, and the status is that
  of an uncaught \<open>SyntaxError\<close>, 1.
\<close>

theorem version_check_is_not_reached_below_3_6:
  "below_minimum python35_env
   \<and> script python35_env example_world = (Inl (Raised SyntaxError), example_world)
   \<and> exit_status python35_env (fst (script python35_env example_world)) = Some 1
   \<and> exit_status python37_env (fst (script python37_env example_world)) = Some 2"
  by (simp add: script_def compiles_def below_minimum_def exit_code_def
        python35_env_def python37_env_def example_env_def)

end
